theory Spec2Isabelle
  imports Main
begin

section \<open>Exceptions raised by the client\<close>

text \<open>
  Every exception the modelled functions can raise is a constructor; a function that may
  raise returns \<open>error + 'a\<close>, with \<open>Inl\<close> carrying the exception.
\<close>

datatype error =
    ImproperFileFormat string
  | MissingOnyxCredentialsError string
  | InvalidOnyxCredentialTypeError
  | ParserError
  | KeyError string
  | IndexError
  | TypeError

section \<open>Python string operations used by the sources\<close>

abbreviation NL :: char where "NL \<equiv> CHR 0x0A"
abbreviation BACKSLASH :: char where "BACKSLASH \<equiv> CHR 0x5C"

text \<open>\<^verbatim>\<open>sep.join(xs)\<close>\<close>

fun str_join :: "string \<Rightarrow> string list \<Rightarrow> string" where
  "str_join sep [] = []"
| "str_join sep [x] = x"
| "str_join sep (x # y # ys) = x @ sep @ str_join sep (y # ys)"

text \<open>\<^verbatim>\<open>s.split(c)\<close> for a one-character separator: the segments between the separators.\<close>

fun split_acc :: "char \<Rightarrow> string \<Rightarrow> string \<Rightarrow> string list" where
  "split_acc c acc [] = [rev acc]"
| "split_acc c acc (x # xs) =
     (if x = c then rev acc # split_acc c [] xs else split_acc c (x # acc) xs)"

definition str_split :: "char \<Rightarrow> string \<Rightarrow> string list" where
  "str_split c s = split_acc c [] s"

text \<open>\<^verbatim>\<open>xs[i]\<close> for a non-negative index: IndexError out of range.\<close>

definition list_get :: "'a list \<Rightarrow> nat \<Rightarrow> error + 'a" where
  "list_get xs i = (if i < length xs then Inr (xs ! i) else Inl IndexError)"


text \<open>\<^verbatim>\<open>str(n)\<close> for an integer: decimal digits, with a minus sign when negative.\<close>

definition digit_char :: "nat \<Rightarrow> char" where
  "digit_char n = ''0123456789'' ! n"

function str_nat :: "nat \<Rightarrow> string" where
  "str_nat n = (if n < 10 then [digit_char n] else str_nat (n div 10) @ [digit_char (n mod 10)])"
  by pat_completeness auto
termination
  by (relation "measure id") auto

definition str_int :: "int \<Rightarrow> string" where
  "str_int i = (if i < 0 then CHR ''-'' # str_nat (nat (- i)) else str_nat (nat i))"

section \<open>Regular expressions as \<^verbatim>\<open>re.match\<close> reads them\<close>

text \<open>
  The two patterns of \<^verbatim>\<open>config_sender.py\<close> are sequences of anchors and quantified
  one-character atoms. An atom is a literal character or a character class given by its
  ranges; an item is \<^verbatim>\<open>^\<close>, \<^verbatim>\<open>$\<close> or an atom repeated between a minimum and an
  optional maximum number of times.

  \<^verbatim>\<open>re.match\<close> anchors the match at position 0 and accepts when some prefix of the
  string matches. Without the MULTILINE flag \<^verbatim>\<open>^\<close> matches at position 0 only, and
  \<^verbatim>\<open>$\<close> matches at the end of the string and also just before a newline that is the
  last character of the string.
\<close>

datatype atom = Lit char | Cls "(char \<times> char) list"

datatype item = Bol | Eol | Rep atom nat "nat option"

fun in_range :: "char \<Rightarrow> char \<times> char \<Rightarrow> bool" where
  "in_range c (lo, hi) = ((of_char lo :: nat) \<le> of_char c \<and> (of_char c :: nat) \<le> of_char hi)"

fun atom_ok :: "atom \<Rightarrow> char \<Rightarrow> bool" where
  "atom_ok (Lit l) c = (c = l)"
| "atom_ok (Cls rs) c = list_ex (in_range c) rs"

fun dec_max :: "nat option \<Rightarrow> nat option" where
  "dec_max None = None"
| "dec_max (Some k) = Some (k - 1)"

function re_items :: "item list \<Rightarrow> nat \<Rightarrow> string \<Rightarrow> bool" where
  "re_items [] pos s = True"
| "re_items (Bol # its) pos s = (pos = 0 \<and> re_items its pos s)"
| "re_items (Eol # its) pos s = ((s = [] \<or> s = [NL]) \<and> re_items its pos s)"
| "re_items (Rep a lo hi # its) pos s =
     ((lo = 0 \<and> re_items its pos s) \<or>
      (case s of [] \<Rightarrow> False
       | c # cs \<Rightarrow> hi \<noteq> Some 0 \<and> atom_ok a c \<and> re_items (Rep a (lo - 1) (dec_max hi) # its) (Suc pos) cs))"
  by pat_completeness auto
termination
  by (relation "measure (\<lambda>(its, pos, s). length its + length s)") auto

text \<open>Whether a number of repetitions is within the optional maximum of an item.\<close>


fun within :: "nat option \<Rightarrow> nat \<Rightarrow> bool" where
  "within None k = True"
| "within (Some h) k = (k \<le> h)"

definition re_match :: "item list \<Rightarrow> string \<Rightarrow> bool" where
  "re_match pattern s = re_items pattern 0 s"

definition lit :: "string \<Rightarrow> item list" where
  "lit s = map (\<lambda>c. Rep (Lit c) 1 (Some 1)) s"

section \<open>Validation of a configuration file (\<^verbatim>\<open>config_sender.py\<close>)\<close>

text \<open>\<^verbatim>\<open>header_pattern = r"^sourceId,RTSsymbol$"\<close>\<close>

definition header_pattern :: "item list" where
  "header_pattern = Bol # lit ''sourceId,RTSsymbol'' @ [Eol]"

definition validate_header :: "string \<Rightarrow> error + unit" where
  "validate_header header =
     (if \<not> re_match header_pattern header
      then Inl (ImproperFileFormat ''Improperly formatted header'')
      else Inr ())"

text \<open>
  \<^verbatim>\<open>row_pattern = r"^[0-9]{3,4},[A-Z0-9\\+;()!*\-.:/$@&_%#]+$"\<close>. Inside the class
  \<^verbatim>\<open>\\\<close> is the backslash itself and \<^verbatim>\<open>\-\<close> is the hyphen.
\<close>

definition symbol_class :: "(char \<times> char) list" where
  "symbol_class =
     (CHR ''A'', CHR ''Z'') # (CHR ''0'', CHR ''9'') #
     map (\<lambda>c. (c, c)) (BACKSLASH # ''+;()!*-.:/$@&_%#'')"

definition row_pattern :: "item list" where
  "row_pattern =
     [Bol, Rep (Cls [(CHR ''0'', CHR ''9'')]) 3 (Some 4), Rep (Lit CHR '','') 1 (Some 1),
      Rep (Cls symbol_class) 1 None, Eol]"

definition validate_row :: "string \<Rightarrow> int \<Rightarrow> error + unit" where
  "validate_row row row_index =
     (if \<not> re_match row_pattern row
      then Inl (ImproperFileFormat (''Line '' @ str_int row_index @ '' - Improperly formatted''))
      else Inr ())"

text \<open>
  The file is read by \<^verbatim>\<open>csv.reader\<close>; the model starts from the rows it yields, each a
  list of fields. The loop over \<^verbatim>\<open>enumerate(csv_reader)\<close> carries the index; an
  exception of a row ends the loop.
\<close>

fun validate_rows :: "nat \<Rightarrow> string list list \<Rightarrow> error + unit" where
  "validate_rows index [] = Inr ()"
| "validate_rows index (row # rows) =
     (case (if index = 0 then validate_header (str_join '','' row)
            else validate_row (str_join '','' row) (int index)) of
        Inl e \<Rightarrow> Inl e
      | Inr u \<Rightarrow> validate_rows (Suc index) rows)"

definition validate_watchlist_configuration_file :: "string list list \<Rightarrow> error + unit" where
  "validate_watchlist_configuration_file csv_reader = validate_rows 0 csv_reader"

section \<open>Timestamps (\<^verbatim>\<open>helpers.py\<close>)\<close>

text \<open>
  A \<^verbatim>\<open>datetime.datetime\<close> with whole seconds. \<open>tzinfo\<close> is the offset east of UTC in
  minutes, \<open>None\<close> for a naive value.
\<close>

record datetime =
  year :: nat
  month :: nat
  day :: nat
  hour :: nat
  minute :: nat
  second :: nat
  tzinfo :: "int option"

definition is_leap :: "nat \<Rightarrow> bool" where
  "is_leap y = (y mod 4 = 0 \<and> (y mod 100 \<noteq> 0 \<or> y mod 400 = 0))"

definition days_in_month :: "nat \<Rightarrow> nat \<Rightarrow> nat" where
  "days_in_month y m =
     (if m = 2 then (if is_leap y then 29 else 28)
      else if m = 4 \<or> m = 6 \<or> m = 9 \<or> m = 11 then 30 else 31)"

text \<open>The constructor of \<^verbatim>\<open>datetime\<close>: a field out of range is a ValueError.\<close>

definition make_datetime ::
  "nat \<Rightarrow> nat \<Rightarrow> nat \<Rightarrow> nat \<Rightarrow> nat \<Rightarrow> nat \<Rightarrow> int option \<Rightarrow> datetime option" where
  "make_datetime y m d h mi s tz =
     (if 1 \<le> y \<and> y \<le> 9999 \<and> 1 \<le> m \<and> m \<le> 12 \<and> 1 \<le> d \<and> d \<le> days_in_month y m \<and>
         h < 24 \<and> mi < 60 \<and> s < 60
      then Some \<lparr>year = y, month = m, day = d, hour = h, minute = mi, second = s, tzinfo = tz\<rparr>
      else None)"

definition digit_val :: "char \<Rightarrow> nat option" where
  "digit_val c =
     (if (48::nat) \<le> of_char c \<and> (of_char c :: nat) \<le> 57 then Some (of_char c - 48) else None)"

fun digits_val :: "string \<Rightarrow> nat \<Rightarrow> nat option" where
  "digits_val [] acc = Some acc"
| "digits_val (c # cs) acc =
     (case digit_val c of None \<Rightarrow> None | Some d \<Rightarrow> digits_val cs (10 * acc + d))"

text \<open>The number written by the \<open>n\<close> characters of \<open>s\<close> from position \<open>i\<close>, all digits.\<close>

definition field :: "string \<Rightarrow> nat \<Rightarrow> nat \<Rightarrow> nat option" where
  "field s i n = (if 0 < n \<and> i + n \<le> length s then digits_val (take n (drop i s)) 0 else None)"

definition month_of_name :: "string \<Rightarrow> nat option" where
  "month_of_name =
     map_of [(''Jan'', 1), (''Feb'', 2), (''Mar'', 3), (''Apr'', 4), (''May'', 5), (''Jun'', 6),
             (''Jul'', 7), (''Aug'', 8), (''Sep'', 9), (''Oct'', 10), (''Nov'', 11), (''Dec'', 12)]"

definition is_weekday_name :: "string \<Rightarrow> bool" where
  "is_weekday_name w =
     List.member [''Mon'', ''Tue'', ''Wed'', ''Thu'', ''Fri'', ''Sat'', ''Sun''] w"

definition signed_offset :: "char \<Rightarrow> nat \<Rightarrow> nat \<Rightarrow> int option option" where
  "signed_offset sign h m =
     (if h < 24 \<and> m < 60 \<and> (sign = CHR ''+'' \<or> sign = CHR ''-'')
      then Some (Some ((if sign = CHR ''-'' then - 1 else 1) * int (h * 60 + m)))
      else None)"

text \<open>The zone after an ISO-8601 time: nothing, \<^verbatim>\<open>Z\<close>, or \<^verbatim>\<open>+HH:MM\<close> / \<^verbatim>\<open>-HH:MM\<close>.\<close>

definition iso_zone :: "string \<Rightarrow> int option option" where
  "iso_zone z =
     (if z = [] then Some None
      else if z = ''Z'' then Some (Some 0)
      else if length z = 6 \<and> z ! 3 = CHR '':''
      then Option.bind (field z 1 2) (\<lambda>h. Option.bind (field z 4 2) (\<lambda>m. signed_offset (z ! 0) h m))
      else None)"

text \<open>The zone of an RFC-1123 date: \<^verbatim>\<open>GMT\<close>, \<^verbatim>\<open>UTC\<close>, or \<^verbatim>\<open>+HHMM\<close> / \<^verbatim>\<open>-HHMM\<close>.\<close>

definition rfc_zone :: "string \<Rightarrow> int option option" where
  "rfc_zone z =
     (if z = ''GMT'' \<or> z = ''UTC'' then Some (Some 0)
      else if length z = 5
      then Option.bind (field z 1 2) (\<lambda>h. Option.bind (field z 3 2) (\<lambda>m. signed_offset (z ! 0) h m))
      else None)"

text \<open>\<^verbatim>\<open>YYYY-MM-DDTHH:MM:SS\<close> followed by a zone.\<close>

definition parse_iso8601 :: "string \<Rightarrow> datetime option" where
  "parse_iso8601 s =
     (if 19 \<le> length s \<and> s ! 4 = CHR ''-'' \<and> s ! 7 = CHR ''-'' \<and> s ! 10 = CHR ''T'' \<and>
         s ! 13 = CHR '':'' \<and> s ! 16 = CHR '':''
      then Option.bind (field s 0 4) (\<lambda>y.
           Option.bind (field s 5 2) (\<lambda>m.
           Option.bind (field s 8 2) (\<lambda>d.
           Option.bind (field s 11 2) (\<lambda>h.
           Option.bind (field s 14 2) (\<lambda>mi.
           Option.bind (field s 17 2) (\<lambda>sec.
           Option.bind (iso_zone (drop 19 s)) (\<lambda>tz.
             make_datetime y m d h mi sec tz)))))))
      else None)"

text \<open>\<^verbatim>\<open>Www, DD Mon YYYY HH:MM:SS\<close> followed by a space and a zone.\<close>

definition parse_rfc1123 :: "string \<Rightarrow> datetime option" where
  "parse_rfc1123 s =
     (if 26 \<le> length s \<and> is_weekday_name (take 3 s) \<and> s ! 3 = CHR '','' \<and> s ! 4 = CHR '' '' \<and>
         s ! 7 = CHR '' '' \<and> s ! 11 = CHR '' '' \<and> s ! 16 = CHR '' '' \<and> s ! 19 = CHR '':'' \<and>
         s ! 22 = CHR '':'' \<and> s ! 25 = CHR '' ''
      then Option.bind (field s 5 2) (\<lambda>d.
           Option.bind (month_of_name (take 3 (drop 8 s))) (\<lambda>m.
           Option.bind (field s 12 4) (\<lambda>y.
           Option.bind (field s 17 2) (\<lambda>h.
           Option.bind (field s 20 2) (\<lambda>mi.
           Option.bind (field s 23 2) (\<lambda>sec.
           Option.bind (rfc_zone (drop 26 s)) (\<lambda>tz.
             make_datetime y m d h mi sec tz)))))))
      else None)"

text \<open>
  Modelled from the spec: \<^verbatim>\<open>dateutil.parser.parse\<close> is a third-party library and not
  under src/. Section 4.1 of the specification describes it: it accepts RFC-1123-style
  strings (\<^verbatim>\<open>Wed, 18 Nov 2020 15:23:52 GMT\<close>) and ISO-8601 strings
  (\<^verbatim>\<open>2020-11-18T15:23:52Z\<close>) and fails with a parse error on a string of neither
  grammar. On the two grammars the result below is the one the library gives: the fields as
  written, with the zone (if any) as \<open>tzinfo\<close>; the weekday name is not compared with
  the date.
\<close>

definition dateutil_parse :: "string \<Rightarrow> datetime option" where
  "dateutil_parse s =
     (case parse_iso8601 s of Some dt \<Rightarrow> Some dt | None \<Rightarrow> parse_rfc1123 s)"

text \<open>
  \<^verbatim>\<open>dateutil.parser.parse(raw_timestamp).replace(tzinfo=dateutil.tz.tzutc())\<close>:
  \<^verbatim>\<open>replace\<close> overwrites the zone and leaves the date and time fields as they are.
\<close>

definition parse_utc_timestamp :: "string \<Rightarrow> error + datetime" where
  "parse_utc_timestamp raw_timestamp =
     (case dateutil_parse raw_timestamp of
        None \<Rightarrow> Inl ParserError
      | Some dt \<Rightarrow> Inr (dt\<lparr>tzinfo := Some 0\<rparr>))"

text \<open>A number written in decimal, padded with zeros on the left to a width.\<close>

definition zero_pad :: "nat \<Rightarrow> nat \<Rightarrow> string" where
  "zero_pad w n = replicate (w - length (str_nat n)) CHR ''0'' @ str_nat n"

text \<open>What one directive of a pattern writes.\<close>

definition directive :: "datetime \<Rightarrow> char \<Rightarrow> string" where
  "directive dt c =
     (if c = CHR ''Y'' then zero_pad 4 (year dt)
      else if c = CHR ''m'' then zero_pad 2 (month dt)
      else if c = CHR ''d'' then zero_pad 2 (day dt)
      else if c = CHR ''H'' then zero_pad 2 (hour dt)
      else if c = CHR ''M'' then zero_pad 2 (minute dt)
      else if c = CHR ''S'' then zero_pad 2 (second dt)
      else if c = CHR ''%'' then ''%''
      else [CHR ''%'', c])"

text \<open>
  Modelled from the spec: \<^verbatim>\<open>datetime.strftime\<close> belongs to the standard library and is
  not under src/. Section 4.1 of the specification describes it: the instant is rendered
  with the pattern of the caller, the default pattern gives \<^verbatim>\<open>YYYY-MM-DDTHH:MM:SSZ\<close>,
  and there is no error. The directives the sources use are modelled: \<^verbatim>\<open>%Y\<close> is the
  year padded with zeros to four digits, \<^verbatim>\<open>%m %d %H %M %S\<close> are padded to two, and
  \<^verbatim>\<open>%%\<close> is a percent sign. Any other directive is left as written, and every other
  character is copied.
\<close>

fun strftime :: "datetime \<Rightarrow> string \<Rightarrow> string" where
  "strftime dt [] = []"
| "strftime dt [c] = [c]"
| "strftime dt (c # d # rest) =
     (if c = CHR ''%'' then directive dt d @ strftime dt rest else c # strftime dt (d # rest))"

definition format_utc_timestamp :: "datetime \<Rightarrow> string \<Rightarrow> string" where
  "format_utc_timestamp utc_timestamp date_format = strftime utc_timestamp date_format"


definition convert_raw_utc_timestamp_to_string :: "string \<Rightarrow> string \<Rightarrow> error + string" where
  "convert_raw_utc_timestamp_to_string raw_timestamp date_format =
     (case parse_utc_timestamp raw_timestamp of
        Inl e \<Rightarrow> Inl e
      | Inr dt \<Rightarrow> Inr (format_utc_timestamp dt date_format))"

subsection \<open>The query string\<close>







definition join_base_url_and_query_string :: "string \<Rightarrow> string \<Rightarrow> string" where
  "join_base_url_and_query_string base_url query_string =
     (if base_url \<noteq> [] \<and> last base_url = CHR ''/''
      then butlast base_url @ ''?'' @ query_string
      else base_url @ ''?'' @ query_string)"

section \<open>Retrieval of a configuration (\<^verbatim>\<open>config_retriever.py\<close>)\<close>

text \<open>
  What the sources read of a \<^verbatim>\<open>requests.Response\<close>: the URL of the request, the
  headers (looked up by name) and the body.
\<close>

record response =
  request_url :: string
  headers :: "string \<rightharpoonup> string"
  content :: string

text \<open>
  \<^verbatim>\<open>urllib.parse.urlparse(url).query\<close>: the fragment starts at the first \<^verbatim>\<open>#\<close> and
  is cut off; of what is left, the query is everything after the first \<^verbatim>\<open>?\<close>. Neither
  the scheme nor the network location can hold one of the two characters.
\<close>

definition urlparse_query :: "string \<Rightarrow> string" where
  "urlparse_query url =
     (case dropWhile (\<lambda>c. c \<noteq> CHR ''?'') (takeWhile (\<lambda>c. c \<noteq> CHR ''#'') url) of
        [] \<Rightarrow> []
      | q # query \<Rightarrow> query)"

definition infer_timestamp_from_retrieved_response :: "response \<Rightarrow> error + string" where
  "infer_timestamp_from_retrieved_response r =
     (if urlparse_query (request_url r) = []
      then (case headers r ''Date'' of
              None \<Rightarrow> Inl (KeyError ''Date'')
            | Some date \<Rightarrow> convert_raw_utc_timestamp_to_string date ''%Y%m%dT%H%M%SZ'')
      else (case list_get (str_split CHR ''='' (urlparse_query (request_url r))) 1 of
              Inl e \<Rightarrow> Inl e
            | Inr v \<Rightarrow> convert_raw_utc_timestamp_to_string v ''%Y%m%dT%H%M%SZ''))"

record RetrievedConfig =
  timestamp :: string
  config_body :: string

definition package_retrieved_configuration :: "response \<Rightarrow> error + RetrievedConfig" where
  "package_retrieved_configuration r =
     (case infer_timestamp_from_retrieved_response r of
        Inl e \<Rightarrow> Inl e
      | Inr t \<Rightarrow> Inr \<lparr>timestamp = t, config_body = content r\<rparr>)"

section \<open>The summary of a submission (\<^verbatim>\<open>config_sender.py\<close>)\<close>

text \<open>
  \<^verbatim>\<open>summary: Dict[str, Union[int, List[str]]]\<close>: a value is an integer or a list of
  strings, and \<^verbatim>\<open>summary.get(key)\<close> is \<open>None\<close> for a key that is absent.
\<close>

datatype json_value = JInt int | JList "string list"

record RequestSummary =
  submission_time :: string
  summary :: "string \<rightharpoonup> json_value"

text \<open>
  \<^verbatim>\<open>repr\<close> of a string, as \<^verbatim>\<open>str\<close> of a list prints its elements: single quotes,
  unless the string holds a single quote and no double quote; the quote and the backslash
  are escaped, and so are the control characters.
\<close>

definition hex_lower :: "nat \<Rightarrow> char" where
  "hex_lower n = ''0123456789abcdef'' ! n"

definition repr_char :: "char \<Rightarrow> char \<Rightarrow> string" where
  "repr_char q c =
     (if c = q \<or> c = BACKSLASH then [BACKSLASH, c]
      else if c = NL then [BACKSLASH, CHR ''n'']
      else if c = CHR 0x0D then [BACKSLASH, CHR ''r'']
      else if c = CHR 0x09 then [BACKSLASH, CHR ''t'']
      else if (of_char c :: nat) < 32 \<or> (of_char c :: nat) = 127
      then [BACKSLASH, CHR ''x'', hex_lower (of_char c div 16), hex_lower (of_char c mod 16)]
      else [c])"

definition py_repr :: "string \<Rightarrow> string" where
  "py_repr s =
     (let q = (if List.member s (CHR 0x27) \<and> \<not> List.member s (CHR 0x22) then CHR 0x22 else CHR 0x27)
      in q # concat (map (repr_char q) s) @ [q])"

text \<open>What an f-string writes for \<^verbatim>\<open>{summary.get(key)}\<close>.\<close>

fun py_format :: "json_value option \<Rightarrow> string" where
  "py_format None = ''None''"
| "py_format (Some (JInt i)) = str_int i"
| "py_format (Some (JList xs)) = ''['' @ str_join '', '' (map py_repr xs) @ '']''"

text \<open>\<^verbatim>\<open>summary.get(key) != 0\<close>: only the integer 0 is equal to 0.\<close>

fun ne_zero :: "json_value option \<Rightarrow> bool" where
  "ne_zero None = True"
| "ne_zero (Some (JInt i)) = (i \<noteq> 0)"
| "ne_zero (Some (JList xs)) = True"

text \<open>\<^verbatim>\<open>', '.join(summary.get(key))\<close>: a TypeError unless the value is a list.\<close>

fun join_ids :: "json_value option \<Rightarrow> error + string" where
  "join_ids (Some (JList xs)) = Inr (str_join '', '' xs)"
| "join_ids (Some (JInt i)) = Inl TypeError"
| "join_ids None = Inl TypeError"

definition high_level_summary :: "RequestSummary \<Rightarrow> string" where
  "high_level_summary request_summary =
     submission_time request_summary @ [NL, NL] @
     ''Actions performed as a result of the request:'' @ [NL] @
     ''  - '' @ py_format (summary request_summary ''nbCreated'') @
       '' new sources have been activated'' @ [NL] @
     ''  - '' @ py_format (summary request_summary ''nbUpdated'') @
       '' existing sources have been updated'' @ [NL] @
     ''  - '' @ py_format (summary request_summary ''nbFailed'') @
       '' sources have failed'' @ [NL] @
     ''  - '' @ py_format (summary request_summary ''nbDeactivated'') @
       '' existing sources have been deactivated'' @ [NL, NL]"

definition stringify_response_summary :: "RequestSummary \<Rightarrow> error + string" where
  "stringify_response_summary request_summary =
     (let s0 = [] @ high_level_summary request_summary in
      case (if ne_zero (summary request_summary ''nbCreated'')
            then (case join_ids (summary request_summary ''created'') of
                    Inl e \<Rightarrow> Inl e
                  | Inr ids \<Rightarrow>
                      Inr (s0 @ ''The following sources have been activated: '' @ ids @ [NL]))
            else Inr s0) of
        Inl e \<Rightarrow> Inl e
      | Inr s1 \<Rightarrow>
      case (if ne_zero (summary request_summary ''nbUpdated'')
            then (case join_ids (summary request_summary ''updated'') of
                    Inl e \<Rightarrow> Inl e
                  | Inr ids \<Rightarrow>
                      Inr (s1 @ ''The following sources have been updated: '' @ ids @ [NL]))
            else Inr s1) of
        Inl e \<Rightarrow> Inl e
      | Inr s2 \<Rightarrow>
      case (if ne_zero (summary request_summary ''nbFailed'')
            then (case join_ids (summary request_summary ''failed'') of
                    Inl e \<Rightarrow> Inl e
                  | Inr ids \<Rightarrow>
                      Inr (s2 @ ''The following sources have failed: '' @ ids @ [NL]))
            else Inr s2) of
        Inl e \<Rightarrow> Inl e
      | Inr s3 \<Rightarrow>
      (if ne_zero (summary request_summary ''nbDeactivated'')
       then (case join_ids (summary request_summary ''deactivated'') of
               Inl e \<Rightarrow> Inl e
             | Inr ids \<Rightarrow>
                 Inr (s3 @ ''The following sources have been deactivated: '' @ ids @ [NL]))
       else Inr s3))"

section \<open>Credentials (\<^verbatim>\<open>scripts/cli.py\<close>)\<close>

text \<open>
  A component of the credentials tuple is \<^verbatim>\<open>None\<close>, a \<^verbatim>\<open>str\<close>, or a value of
  another type.
\<close>

datatype credential = CNone | CStr string | COther

fun is_str :: "credential \<Rightarrow> bool" where
  "is_str (CStr s) = True"
| "is_str CNone = False"
| "is_str COther = False"

definition validate_credentials_type :: "credential \<times> credential \<Rightarrow> error + unit" where
  "validate_credentials_type credentials =
     (if list_ex (\<lambda>c. \<not> is_str c) [fst credentials, snd credentials]
      then Inl InvalidOnyxCredentialTypeError
      else Inr ())"

definition validate_credentials_presence :: "credential \<times> credential \<Rightarrow> error + unit" where
  "validate_credentials_presence credentials =
     (let username = fst credentials; password = snd credentials in
      if list_all (\<lambda>c. c = CNone) [fst credentials, snd credentials]
      then Inl (MissingOnyxCredentialsError ''Missing username and password'')
      else if list_ex (\<lambda>c. c = CNone) [fst credentials, snd credentials]
      then (if username = CNone
            then Inl (MissingOnyxCredentialsError ''Missing username'')
            else Inl (MissingOnyxCredentialsError ''Missing password''))
      else Inr ())"

text \<open>
  \<^verbatim>\<open>validate_credentials_presence\<close> returns \<^verbatim>\<open>None\<close> when it does not raise, so
  \<^verbatim>\<open>not validate_credentials_presence(credentials)\<close> is true and the type check runs.
\<close>

definition validate_credentials :: "credential \<times> credential \<Rightarrow> error + unit" where
  "validate_credentials credentials =
     (case validate_credentials_presence credentials of
        Inl e \<Rightarrow> Inl e
      | Inr u \<Rightarrow> validate_credentials_type credentials)"

section \<open>The grammar of a row, in the words of the specification\<close>

text \<open>
  A row is a source id of three or four digits, a comma, and a symbol: one or more
  characters, each an upper-case letter, a digit or one of \<^verbatim>\<open>\+;()!*-.:/$@&_%#\<close>. No
  character of a symbol is a comma, so the id ends at the first comma of the row.
\<close>

definition is_digit :: "char \<Rightarrow> bool" where
  "is_digit c = in_range c (CHR ''0'', CHR ''9'')"

definition symbol_char :: "char \<Rightarrow> bool" where
  "symbol_char c =
     (in_range c (CHR ''A'', CHR ''Z'') \<or> is_digit c \<or>
      List.member (BACKSLASH # ''+;()!*-.:/$@&_%#'') c)"

definition row_grammar :: "string \<Rightarrow> bool" where
  "row_grammar row =
     (let ds = takeWhile (\<lambda>c. c \<noteq> CHR '','') row; rest = dropWhile (\<lambda>c. c \<noteq> CHR '','') row
      in (length ds = 3 \<or> length ds = 4) \<and> list_all is_digit ds \<and>
         2 \<le> length rest \<and> list_all symbol_char (tl rest))"

section \<open>The check of one row of a file, in the words of the specification\<close>

text \<open>
  Row 0 is checked as the header and every later row as a data row carrying its index; the
  fields of the row are joined by commas first.
\<close>

definition check_row :: "nat \<Rightarrow> string list \<Rightarrow> error + unit" where
  "check_row i row =
     (if i = 0 then validate_header (str_join '','' row)
      else validate_row (str_join '','' row) (int i))"

section \<open>The ISO-8601 form of a UTC timestamp\<close>



section \<open>The report of a submission, in the words of the specification\<close>

text \<open>
  The four categories in their fixed order, each with the key of its count, the key of its
  list of source ids, the text of its count line and the text that opens its line of ids.
\<close>

type_synonym category = "string \<times> string \<times> string \<times> string"

definition categories :: "category list" where
  "categories =
     [(''nbCreated'', ''created'', '' new sources have been activated'',
       ''The following sources have been activated: ''),
      (''nbUpdated'', ''updated'', '' existing sources have been updated'',
       ''The following sources have been updated: ''),
      (''nbFailed'', ''failed'', '' sources have failed'',
       ''The following sources have failed: ''),
      (''nbDeactivated'', ''deactivated'', '' existing sources have been deactivated'',
       ''The following sources have been deactivated: '')]"

fun count_line :: "RequestSummary \<Rightarrow> category \<Rightarrow> string" where
  "count_line rs (ck, lk, cl, il) = ''  - '' @ py_format (summary rs ck) @ cl @ [NL]"

text \<open>
  The part of the report a category adds after the count lines: nothing when its count is
  the integer 0; otherwise its line of ids, which needs the list of ids to be a list.
\<close>

fun id_section :: "RequestSummary \<Rightarrow> category \<Rightarrow> error + string" where
  "id_section rs (ck, lk, cl, il) =
     (if summary rs ck = Some (JInt 0) then Inr []
      else (case summary rs lk of
              Some (JList ids) \<Rightarrow> Inr (il @ str_join '', '' ids @ [NL])
            | Some (JInt i) \<Rightarrow> Inl TypeError
            | None \<Rightarrow> Inl TypeError))"

text \<open>The parts in order, up to the first that fails.\<close>

fun seq_sections :: "(error + string) list \<Rightarrow> error + string" where
  "seq_sections [] = Inr []"
| "seq_sections (Inl e # xs) = Inl e"
| "seq_sections (Inr s # xs) = (case seq_sections xs of Inl e \<Rightarrow> Inl e | Inr t \<Rightarrow> Inr (s @ t))"

text \<open>The expected shape of the summary: four integer counts and four lists of ids.\<close>

fun is_int :: "json_value option \<Rightarrow> bool" where
  "is_int (Some (JInt i)) = True"
| "is_int (Some (JList xs)) = False"
| "is_int None = False"

fun is_list :: "json_value option \<Rightarrow> bool" where
  "is_list (Some (JList xs)) = True"
| "is_list (Some (JInt i)) = False"
| "is_list None = False"

definition expected_shape :: "RequestSummary \<Rightarrow> bool" where
  "expected_shape rs =
     (list_all (\<lambda>k. is_int (summary rs k)) [''nbCreated'', ''nbUpdated'', ''nbFailed'', ''nbDeactivated''] \<and>
      list_all (\<lambda>k. is_list (summary rs k)) [''created'', ''updated'', ''failed'', ''deactivated''])"

fun count_of :: "json_value option \<Rightarrow> int" where
  "count_of (Some (JInt i)) = i"
| "count_of (Some (JList xs)) = 0"
| "count_of None = 0"

fun ids_of :: "json_value option \<Rightarrow> string list" where
  "ids_of (Some (JList xs)) = xs"
| "ids_of (Some (JInt i)) = []"
| "ids_of None = []"

fun int_count_line :: "RequestSummary \<Rightarrow> category \<Rightarrow> string" where
  "int_count_line rs (ck, lk, cl, il) = ''  - '' @ str_int (count_of (summary rs ck)) @ cl @ [NL]"

fun id_line :: "RequestSummary \<Rightarrow> category \<Rightarrow> string" where
  "id_line rs (ck, lk, cl, il) = il @ str_join '', '' (ids_of (summary rs lk)) @ [NL]"

fun nonzero_count :: "RequestSummary \<Rightarrow> category \<Rightarrow> bool" where
  "nonzero_count rs (ck, lk, cl, il) = (count_of (summary rs ck) \<noteq> 0)"

definition report :: "RequestSummary \<Rightarrow> string" where
  "report rs =
     submission_time rs @ [NL, NL] @
     ''Actions performed as a result of the request:'' @ [NL] @
     concat (map (int_count_line rs) categories) @ [NL] @
     concat (map (id_line rs) (filter (nonzero_count rs) categories))"

section \<open>The value segment of a query, in the words of the specification\<close>

text \<open>
  The first value segment delimited by \<^verbatim>\<open>=\<close>: what stands between the first
  \<^verbatim>\<open>=\<close> of the query and the next one, or the end of the query. A query without
  \<^verbatim>\<open>=\<close> has none.
\<close>

definition value_segment :: "string \<Rightarrow> string option" where
  "value_segment query =
     (case dropWhile (\<lambda>c. c \<noteq> CHR ''='') query of
        [] \<Rightarrow> None
      | eq # rest \<Rightarrow> Some (takeWhile (\<lambda>c. c \<noteq> CHR ''='') rest))"

section \<open>The canonical string and the instant of a timestamp, in the words of the specification\<close>







section \<open>Properties of the validation of rows and headers\<close>

lemmas row_eval = validate_row_def re_match_def row_pattern_def symbol_class_def

text \<open>
  Claim C3: \<^verbatim>\<open>validate_row\<close> accepts the row \<^verbatim>\<open>207,F:FDAX\Z20\<close>, whose symbol holds a
  backslash; it rejects \<^verbatim>\<open>207, F:FDAX\Z20\<close> (a space after the comma) and
  \<^verbatim>\<open>207,F:FDAX??Z20\<close> (question marks in the symbol) with ImproperFileFormat, whatever
  the index of the row.
\<close>

theorem validate_row_examples:
  "validate_row (''207,F:FDAX'' @ [BACKSLASH] @ ''Z20'') i = Inr () \<and>
   validate_row (''207, F:FDAX'' @ [BACKSLASH] @ ''Z20'') i =
     Inl (ImproperFileFormat (''Line '' @ str_int i @ '' - Improperly formatted'')) \<and>
   validate_row ''207,F:FDAX??Z20'' i =
     Inl (ImproperFileFormat (''Line '' @ str_int i @ '' - Improperly formatted''))"
  by (simp add: row_eval)

text \<open>
  Claim C2: \<^verbatim>\<open>validate_row\<close> should succeed exactly on the rows of the grammar, with
  nothing before or after. The row \<^verbatim>\<open>207,A\<close> followed by a newline is not of the
  grammar, and \<^verbatim>\<open>validate_row\<close> accepts it: \<^verbatim>\<open>$\<close> also matches just before a final
  newline.
\<close>

theorem validate_row_trailing_newline:
  "validate_row (''207,A'' @ [NL]) 1 = Inr () \<and> \<not> row_grammar (''207,A'' @ [NL])"
  by (simp add: row_eval row_grammar_def symbol_char_def is_digit_def)

lemma re_items_Rep_zero: "re_items (Rep a 0 (Some 0) # its) pos s = re_items its pos s"
  by (cases s) simp_all

lemma re_items_lit_one:
  "re_items (Rep (Lit c) (Suc 0) (Some (Suc 0)) # its) pos s =
   (\<exists>cs. s = c # cs \<and> re_items its (Suc pos) cs)"
proof (cases s)
  case Nil
  then show ?thesis by simp
next
  case (Cons x xs)
  have "re_items (Rep (Lit c) (Suc 0) (Some (Suc 0)) # its) pos (x # xs) =
        (x = c \<and> re_items (Rep (Lit c) 0 (Some 0) # its) (Suc pos) xs)"
    by (subst re_items.simps(4)) simp
  with Cons show ?thesis by (auto simp only: re_items_Rep_zero list.inject)
qed

lemma re_items_lit:
  "re_items (lit w @ its) pos s = (\<exists>rest. s = w @ rest \<and> re_items its (pos + length w) rest)"
proof (induction w arbitrary: pos s)
  case Nil
  show ?case by (simp add: lit_def)
next
  case (Cons c w)
  have "re_items (lit (c # w) @ its) pos s =
        (\<exists>cs. s = c # cs \<and> re_items (lit w @ its) (Suc pos) cs)"
    by (simp only: lit_def list.map append_Cons re_items_lit_one One_nat_def)
  also have "\<dots> = (\<exists>cs. s = c # cs \<and> (\<exists>rest. cs = w @ rest \<and> re_items its (Suc pos + length w) rest))"
    by (simp only: Cons.IH)
  also have "\<dots> = (\<exists>rest. s = (c # w) @ rest \<and> re_items its (pos + length (c # w)) rest)"
    by auto
  finally show ?case .
qed

lemma re_match_header_pattern:
  "re_match header_pattern header =
   (header = ''sourceId,RTSsymbol'' \<or> header = ''sourceId,RTSsymbol'' @ [NL])"
proof -
  have "re_match header_pattern header =
        (\<exists>rest. header = ''sourceId,RTSsymbol'' @ rest \<and> (rest = [] \<or> rest = [NL]))"
    unfolding re_match_def header_pattern_def
    by (simp only: re_items.simps(2) re_items_lit re_items.simps(3) re_items.simps(1)) simp
  also have "\<dots> = (header = ''sourceId,RTSsymbol'' \<or> header = ''sourceId,RTSsymbol'' @ [NL])"
    by blast
  finally show ?thesis .
qed

text \<open>
  The headers \<^verbatim>\<open>validate_header\<close> accepts are \<^verbatim>\<open>sourceId,RTSsymbol\<close> and the same
  string followed by one newline.
\<close>

lemma validate_header_iff:
  "(validate_header header = Inr ()) =
   (header = ''sourceId,RTSsymbol'' \<or> header = ''sourceId,RTSsymbol'' @ [NL])"
  by (simp only: validate_header_def re_match_header_pattern) simp

text \<open>
  Claim C4: \<^verbatim>\<open>validate_header\<close> should succeed on the string
  \<^verbatim>\<open>sourceId,RTSsymbol\<close> and on no other. The header followed by a newline is another
  string, and \<^verbatim>\<open>validate_header\<close> accepts it; the case variant
  \<^verbatim>\<open>SourceID,RTSSymbol\<close> is rejected.
\<close>

theorem validate_header_trailing_newline:
  "validate_header (''sourceId,RTSsymbol'' @ [NL]) = Inr () \<and>
   ''sourceId,RTSsymbol'' @ [NL] \<noteq> ''sourceId,RTSsymbol'' \<and>
   validate_header ''SourceID,RTSSymbol'' =
     Inl (ImproperFileFormat ''Improperly formatted header'')"
  by (simp add: validate_header_def re_match_def header_pattern_def lit_def)

subsection \<open>The rows the pattern accepts\<close>

lemma within_Suc: "within hi (Suc k) = (hi \<noteq> Some 0 \<and> within (dec_max hi) k)"
  by (cases hi) auto

lemma re_items_Rep:
  "re_items (Rep a lo hi # its) pos s =
   (\<exists>k. lo \<le> k \<and> within hi k \<and> k \<le> length s \<and> list_all (atom_ok a) (take k s) \<and>
        re_items its (pos + k) (drop k s))"
proof (induction s arbitrary: lo hi pos)
  case Nil
  show ?case by (cases hi) auto
next
  case (Cons c cs)
  let ?R = "\<lambda>k. lo \<le> k \<and> within hi k \<and> k \<le> length (c # cs) \<and>
               list_all (atom_ok a) (take k (c # cs)) \<and> re_items its (pos + k) (drop k (c # cs))"
  have zero: "?R 0 = (lo = 0 \<and> re_items its pos (c # cs))"
    by (cases hi) auto
  have succ: "?R (Suc k) =
        (hi \<noteq> Some 0 \<and> atom_ok a c \<and> lo - 1 \<le> k \<and> within (dec_max hi) k \<and> k \<le> length cs \<and>
         list_all (atom_ok a) (take k cs) \<and> re_items its (Suc pos + k) (drop k cs))" for k
    by (auto simp: within_Suc)
  have "re_items (Rep a lo hi # its) pos (c # cs) =
        ((lo = 0 \<and> re_items its pos (c # cs)) \<or>
         (hi \<noteq> Some 0 \<and> atom_ok a c \<and>
          re_items (Rep a (lo - 1) (dec_max hi) # its) (Suc pos) cs))"
    by simp
  also have "\<dots> = (?R 0 \<or> (\<exists>k. ?R (Suc k)))"
    unfolding zero succ Cons.IH by blast
  also have "\<dots> = (\<exists>k. ?R k)"
  proof
    assume "?R 0 \<or> (\<exists>k. ?R (Suc k))"
    then show "\<exists>k. ?R k" by blast
  next
    assume "\<exists>k. ?R k"
    then obtain k where k: "?R k" by blast
    show "?R 0 \<or> (\<exists>k. ?R (Suc k))"
    proof (cases k)
      case 0
      with k show ?thesis by blast
    next
      case (Suc j)
      with k have "?R (Suc j)" by blast
      then show ?thesis by blast
    qed
  qed
  finally show ?case .
qed


lemma atom_ok_digit: "atom_ok (Cls [(CHR ''0'', CHR ''9'')]) = is_digit"
  by (rule ext) (simp add: is_digit_def)

lemma in_range_single: "in_range c (x, x) = (c = x)"
  by auto

lemma atom_ok_symbol: "atom_ok (Cls symbol_class) = symbol_char"
proof (rule ext)
  fix c
  have "atom_ok (Cls symbol_class) c =
        (in_range c (CHR ''A'', CHR ''Z'') \<or> in_range c (CHR ''0'', CHR ''9'') \<or>
         c \<in> set (BACKSLASH # ''+;()!*-.:/$@&_%#''))"
    by (simp add: symbol_class_def in_range_single del: in_range.simps)
  then show "atom_ok (Cls symbol_class) c = symbol_char c"
    by (simp only: symbol_char_def is_digit_def List.member_iff)
qed

lemma is_digit_not_comma: "is_digit c \<Longrightarrow> c \<noteq> CHR '',''"
  by (auto simp: is_digit_def)

lemma re_match_row_pattern:
  "re_match row_pattern row =
   (\<exists>ds sym tail. row = ds @ CHR '','' # sym @ tail \<and> (length ds = 3 \<or> length ds = 4) \<and>
      list_all is_digit ds \<and> sym \<noteq> [] \<and> list_all symbol_char sym \<and> (tail = [] \<or> tail = [NL]))"
  (is "?L = ?R")
proof
  assume ?L
  then obtain k where k: "3 \<le> k" "k \<le> 4" "k \<le> length row" "list_all is_digit (take k row)"
    and rest: "re_items [Rep (Lit CHR '','') (Suc 0) (Some (Suc 0)), Rep (Cls symbol_class) 1 None, Eol]
                 k (drop k row)"
    unfolding re_match_def row_pattern_def re_items.simps(2)
    by (auto simp: re_items_Rep[of "Cls [(CHR ''0'', CHR ''9'')]"] atom_ok_digit
        simp del: re_items.simps)
  from rest obtain cs where cs: "drop k row = CHR '','' # cs"
    and sym: "re_items [Rep (Cls symbol_class) 1 None, Eol] (Suc k) cs"
    unfolding re_items_lit_one by blast
  from sym obtain j where j: "1 \<le> j" "j \<le> length cs" "list_all symbol_char (take j cs)"
    and tail: "drop j cs = [] \<or> drop j cs = [NL]"
    by (auto simp: re_items_Rep[of "Cls symbol_class"] atom_ok_symbol simp del: re_items.simps(4))
  have "row = take k row @ CHR '','' # take j cs @ drop j cs"
    using cs by (metis append_take_drop_id)
  moreover have "length (take k row) = 3 \<or> length (take k row) = 4" using k by auto
  moreover have "take j cs \<noteq> []" using j by auto
  ultimately show ?R using k(4) j(3) tail by blast
next
  assume ?R
  then obtain ds sym tail where row: "row = ds @ CHR '','' # sym @ tail"
    and ds: "length ds = 3 \<or> length ds = 4" "list_all is_digit ds"
    and sym: "sym \<noteq> []" "list_all symbol_char sym" and tail: "tail = [] \<or> tail = [NL]"
    by blast
  have "re_items [Rep (Cls symbol_class) 1 None, Eol] (Suc (length ds)) (sym @ tail)"
    unfolding re_items_Rep[of "Cls symbol_class"] atom_ok_symbol
    using sym tail by (intro exI[of _ "length sym"]) (auto simp: Suc_le_eq)
  then have "re_items [Rep (Lit CHR '','') (Suc 0) (Some (Suc 0)), Rep (Cls symbol_class) 1 None, Eol]
                 (length ds) (CHR '','' # sym @ tail)"
    unfolding re_items_lit_one by blast
  then have "re_items [Rep (Cls [(CHR ''0'', CHR ''9'')]) 3 (Some 4),
                 Rep (Lit CHR '','') (Suc 0) (Some (Suc 0)), Rep (Cls symbol_class) 1 None, Eol]
                 0 row"
    unfolding re_items_Rep[of "Cls [(CHR ''0'', CHR ''9'')]"] atom_ok_digit row
    using ds by (intro exI[of _ "length ds"]) auto
  then show ?L
    unfolding re_match_def row_pattern_def re_items.simps(2) by simp
qed


lemma row_grammar_iff:
  "row_grammar body =
   (\<exists>ds sym. body = ds @ CHR '','' # sym \<and> (length ds = 3 \<or> length ds = 4) \<and>
      list_all is_digit ds \<and> sym \<noteq> [] \<and> list_all symbol_char sym)"
  (is "?L = ?R")
proof
  let ?P = "\<lambda>c. c \<noteq> CHR '',''"
  assume ?L
  then have ds: "length (takeWhile ?P body) = 3 \<or> length (takeWhile ?P body) = 4"
      "list_all is_digit (takeWhile ?P body)"
    and rest: "2 \<le> length (dropWhile ?P body)" "list_all symbol_char (tl (dropWhile ?P body))"
    by (simp_all add: row_grammar_def Let_def)
  from rest(1) obtain x sym where xs: "dropWhile ?P body = x # sym" "sym \<noteq> []"
    by (cases "dropWhile ?P body"; cases "tl (dropWhile ?P body)") auto
  from xs(1) have "dropWhile ?P body \<noteq> []" by simp
  then have "\<not> ?P (hd (dropWhile ?P body))" by (rule hd_dropWhile)
  with xs(1) have "x = CHR '',''" by simp
  with xs(1) have "body = takeWhile ?P body @ CHR '','' # sym"
    by (metis takeWhile_dropWhile_id)
  with ds rest(2) xs show ?R by (intro exI[of _ "takeWhile ?P body"] exI[of _ sym]) simp
next
  let ?P = "\<lambda>c. c \<noteq> CHR '',''"
  assume ?R
  then obtain ds sym where body: "body = ds @ CHR '','' # sym"
    and ds: "length ds = 3 \<or> length ds = 4" "list_all is_digit ds"
    and sym: "sym \<noteq> []" "list_all symbol_char sym"
    by blast
  from ds(2) have no_comma: "\<And>c. c \<in> set ds \<Longrightarrow> ?P c"
    by (auto simp: list_all_iff dest: is_digit_not_comma)
  have tw: "takeWhile ?P body = ds"
    unfolding body using no_comma by (simp add: takeWhile_append2)
  have dw: "dropWhile ?P body = CHR '','' # sym"
    unfolding body using no_comma by (simp add: dropWhile_append2)
  from sym(1) have "2 \<le> length (CHR '','' # sym)" by (cases sym) simp_all
  with ds sym(2) show ?L by (simp add: row_grammar_def tw dw)
qed

text \<open>
  The rows \<^verbatim>\<open>validate_row\<close> accepts are the rows of the grammar and the rows of the
  grammar followed by one newline.
\<close>

lemma validate_row_iff:
  "(validate_row row i = Inr ()) = (row_grammar row \<or> (\<exists>body. row = body @ [NL] \<and> row_grammar body))"
  (is "?L = ?R")
proof
  assume ?L
  then have "re_match row_pattern row" by (simp add: validate_row_def split: if_splits)
  then obtain ds sym tail where row: "row = ds @ CHR '','' # sym @ tail"
    and g: "length ds = 3 \<or> length ds = 4" "list_all is_digit ds" "sym \<noteq> []"
      "list_all symbol_char sym"
    and tail: "tail = [] \<or> tail = [NL]"
    unfolding re_match_row_pattern by blast
  from g have body: "row_grammar (ds @ CHR '','' # sym)"
    unfolding row_grammar_iff by blast
  from tail show ?R
  proof
    assume "tail = []"
    with row body show ?R by simp
  next
    assume "tail = [NL]"
    with row have "row = (ds @ CHR '','' # sym) @ [NL]" by simp
    with body show ?R by blast
  qed
next
  assume ?R
  then have "re_match row_pattern row"
  proof
    assume "row_grammar row"
    then obtain ds sym where "row = ds @ CHR '','' # sym @ []"
      "length ds = 3 \<or> length ds = 4" "list_all is_digit ds" "sym \<noteq> []" "list_all symbol_char sym"
      unfolding row_grammar_iff by auto
    then show ?thesis unfolding re_match_row_pattern by blast
  next
    assume "\<exists>body. row = body @ [NL] \<and> row_grammar body"
    then obtain ds sym where "row = ds @ CHR '','' # sym @ [NL]"
      "length ds = 3 \<or> length ds = 4" "list_all is_digit ds" "sym \<noteq> []" "list_all symbol_char sym"
      unfolding row_grammar_iff by auto
    then show ?thesis unfolding re_match_row_pattern by blast
  qed
  then show ?L by (simp add: validate_row_def)
qed

section \<open>Properties of the validation of credentials\<close>

text \<open>
  Claim C10: the presence check fails only when a component is \<^verbatim>\<open>None\<close>, and its
  message says which of the username and the password is missing, or both; after it the
  type check fails only when a component is not a string. Every pair of strings passes,
  the pair of two empty strings among them.
\<close>

theorem validate_credentials_cases:
  "validate_credentials (u, p) =
     (if u = CNone \<and> p = CNone
      then Inl (MissingOnyxCredentialsError ''Missing username and password'')
      else if u = CNone then Inl (MissingOnyxCredentialsError ''Missing username'')
      else if p = CNone then Inl (MissingOnyxCredentialsError ''Missing password'')
      else if is_str u \<and> is_str p then Inr ()
      else Inl InvalidOnyxCredentialTypeError) \<and>
   validate_credentials_presence (u, p) =
     (if u = CNone \<and> p = CNone
      then Inl (MissingOnyxCredentialsError ''Missing username and password'')
      else if u = CNone then Inl (MissingOnyxCredentialsError ''Missing username'')
      else if p = CNone then Inl (MissingOnyxCredentialsError ''Missing password'')
      else Inr ()) \<and>
   validate_credentials (CStr a, CStr b) = Inr () \<and>
   validate_credentials (CStr [], CStr []) = Inr ()"
  by (cases u; cases p)
     (simp_all add: validate_credentials_def validate_credentials_presence_def
        validate_credentials_type_def)

section \<open>Properties of the validation of a file\<close>

lemma validate_rows_Cons:
  "validate_rows n (row # rows) =
     (case check_row n row of Inl e \<Rightarrow> Inl e | Inr u \<Rightarrow> validate_rows (Suc n) rows)"
  by (simp add: check_row_def)

lemma validate_rows_ok:
  "(validate_rows n rows = Inr ()) = (\<forall>i<length rows. check_row (n + i) (rows ! i) = Inr ())"
proof (induction rows arbitrary: n)
  case Nil
  show ?case by simp
next
  case (Cons row rows)
  show ?case
  proof (cases "check_row n row")
    case (Inl e)
    then have "validate_rows n (row # rows) = Inl e" by (simp only: validate_rows_Cons sum.case)
    moreover from Inl have "\<not> (\<forall>i<length (row # rows). check_row (n + i) ((row # rows) ! i) = Inr ())"
      by (auto intro: exI[of _ 0])
    ultimately show ?thesis by simp
  next
    case (Inr u)
    then have "validate_rows n (row # rows) = validate_rows (Suc n) rows"
      by (simp only: validate_rows_Cons sum.case)
    moreover have "(\<forall>i<length (row # rows). check_row (n + i) ((row # rows) ! i) = Inr ()) =
                   (\<forall>i<length rows. check_row (Suc n + i) (rows ! i) = Inr ())"
      using Inr by (auto simp: All_less_Suc2 simp del: validate_rows.simps)
    ultimately show ?thesis using Cons.IH[of "Suc n"] by simp
  qed
qed

lemma validate_rows_first_failure:
  "(\<forall>j<length pre. check_row (n + j) (pre ! j) = Inr ()) \<Longrightarrow>
   check_row (n + length pre) row = Inl e \<Longrightarrow>
   validate_rows n (pre @ row # rest) = Inl e"
proof (induction pre arbitrary: n)
  case Nil
  then show ?case by (simp only: validate_rows_Cons append_Nil) simp
next
  case (Cons p pre)
  from Cons.prems(1) have p: "check_row n p = Inr ()" by (auto dest: spec[of _ 0])
  from Cons.prems(1) have rest: "\<forall>j<length pre. check_row (Suc n + j) (pre ! j) = Inr ()"
    by (auto dest: spec[of _ "Suc j" for j])
  from Cons.prems(2) have "check_row (Suc n + length pre) row = Inl e" by simp
  with rest have "validate_rows (Suc n) (pre @ row # rest) = Inl e" by (rule Cons.IH)
  with p show ?case by (simp only: append_Cons validate_rows_Cons) simp
qed

text \<open>
  Claim C6: for a file given as its rows, \<^verbatim>\<open>validate_file\<close> checks row 0 as the header
  and every row \<open>i \<ge> 1\<close> as a data row with index \<open>i\<close>, the fields joined by commas.
  The file passes exactly when every row passes. Otherwise the error is that of the first
  failing row, and it is the same whatever rows follow that one: they are not examined.
\<close>

theorem validate_file_fail_fast:
  "((validate_watchlist_configuration_file rows = Inr ()) =
      (\<forall>i<length rows. check_row i (rows ! i) = Inr ())) \<and>
   (i < length rows \<and> check_row i (rows ! i) = Inl e \<and>
    (\<forall>j<i. check_row j (rows ! j) = Inr ()) \<longrightarrow>
      validate_watchlist_configuration_file rows = Inl e \<and>
      (\<forall>later. validate_watchlist_configuration_file (take (Suc i) rows @ later) = Inl e)) \<and>
   (check_row 0 row = validate_header (str_join '','' row)) \<and>
   (check_row (Suc k) row = validate_row (str_join '','' row) (int (Suc k)))"
proof (intro conjI impI)
  show "(validate_watchlist_configuration_file rows = Inr ()) =
      (\<forall>i<length rows. check_row i (rows ! i) = Inr ())"
    using validate_rows_ok[of 0 rows] by (simp add: validate_watchlist_configuration_file_def)
next
  assume a: "i < length rows \<and> check_row i (rows ! i) = Inl e \<and>
    (\<forall>j<i. check_row j (rows ! j) = Inr ())"
  have pre: "\<forall>j<length (take i rows). check_row (0 + j) (take i rows ! j) = Inr ()"
    using a by simp
  have row: "check_row (0 + length (take i rows)) (rows ! i) = Inl e"
    using a by (simp add: min_def)
  have any: "validate_rows 0 (take i rows @ rows ! i # later) = Inl e" for later
    using pre row by (rule validate_rows_first_failure)
  have split: "take (Suc i) rows = take i rows @ [rows ! i]"
    using a by (simp add: take_Suc_conv_app_nth)
  have "rows = take i rows @ rows ! i # drop (Suc i) rows"
    using a by (simp add: id_take_nth_drop)
  with any[of "drop (Suc i) rows"]
  show "validate_watchlist_configuration_file rows = Inl e"
    by (simp add: validate_watchlist_configuration_file_def)
  show "\<forall>later. validate_watchlist_configuration_file (take (Suc i) rows @ later) = Inl e"
    using any by (simp add: validate_watchlist_configuration_file_def split)
next
  show "check_row 0 row = validate_header (str_join '','' row)" by (simp add: check_row_def)
  show "check_row (Suc k) row = validate_row (str_join '','' row) (int (Suc k))"
    by (simp add: check_row_def)
qed


theorem validate_file_fail_fast_witness:
  "2 < length [[''sourceId'', ''RTSsymbol''], [''207'', ''F:FDAX''], [''207'', '' X''], [''bad'']] \<and>
   check_row 2 ([[''sourceId'', ''RTSsymbol''], [''207'', ''F:FDAX''], [''207'', '' X''], [''bad'']] ! 2) =
     Inl (ImproperFileFormat ''Line 2 - Improperly formatted'') \<and>
   check_row 0 ([[''sourceId'', ''RTSsymbol''], [''207'', ''F:FDAX''], [''207'', '' X''], [''bad'']] ! 0) = Inr () \<and>
   check_row 1 ([[''sourceId'', ''RTSsymbol''], [''207'', ''F:FDAX''], [''207'', '' X''], [''bad'']] ! 1) = Inr () \<and>
   validate_watchlist_configuration_file
     [[''sourceId'', ''RTSsymbol''], [''207'', ''F:FDAX''], [''207'', '' X''], [''bad'']] =
     Inl (ImproperFileFormat ''Line 2 - Improperly formatted'') \<and>
   validate_watchlist_configuration_file
     [[''sourceId'', ''RTSsymbol''], [''207'', ''F:FDAX''], [''207'', '' X''], [''207'', ''A'']] =
     Inl (ImproperFileFormat ''Line 2 - Improperly formatted'')"
proof -
  let ?rows = "[[''sourceId'', ''RTSsymbol''], [''207'', ''F:FDAX''], [''207'', '' X''], [''bad'']]"
  let ?e = "ImproperFileFormat ''Line 2 - Improperly formatted''"
  have h0: "check_row 0 [''sourceId'', ''RTSsymbol''] = Inr ()"
    by (simp add: check_row_def validate_header_def re_match_def header_pattern_def lit_def)
  have h1: "check_row 1 [''207'', ''F:FDAX''] = Inr ()"
    by (simp add: check_row_def row_eval)
  have h2: "check_row 2 [''207'', '' X''] = Inl ?e"
    by (simp add: check_row_def row_eval str_int_def digit_char_def)
  have len: "2 < length ?rows" by simp
  have at: "check_row 2 (?rows ! 2) = Inl ?e" using h2 by simp
  have before: "\<forall>j<2. check_row j (?rows ! j) = Inr ()"
    using h0 h1 by (simp add: numeral_2_eq_2 All_less_Suc)
  from validate_file_fail_fast[of ?rows 2 ?e] len at before
  have r: "validate_watchlist_configuration_file ?rows = Inl ?e"
    and l: "\<forall>later. validate_watchlist_configuration_file (take (Suc 2) ?rows @ later) = Inl ?e"
    by blast+
  from l have "validate_watchlist_configuration_file (take (Suc 2) ?rows @ [[''207'', ''A'']]) = Inl ?e"
    by blast
  then have "validate_watchlist_configuration_file
     [[''sourceId'', ''RTSsymbol''], [''207'', ''F:FDAX''], [''207'', '' X''], [''207'', ''A'']] = Inl ?e"
    by (simp add: numeral_3_eq_3)
  moreover have "check_row 0 (?rows ! 0) = Inr ()" using h0 by simp
  moreover have "check_row 1 (?rows ! 1) = Inr ()" using h1 by simp
  ultimately show ?thesis using len at r by blast
qed

section \<open>Properties of the query string\<close>










subsection \<open>A timestamp written with a zero offset\<close>


section \<open>Properties of the report of a submission\<close>

lemma ids_block:
  "(if ne_zero (summary rs ck)
    then (case join_ids (summary rs lk) of
            Inl e \<Rightarrow> Inl e
          | Inr ids \<Rightarrow> Inr (acc @ il @ ids @ [NL]))
    else Inr acc) =
   (case id_section rs (ck, lk, cl, il) of Inl e \<Rightarrow> Inl e | Inr t \<Rightarrow> Inr (acc @ t))"
proof -
  have nz: "ne_zero (summary rs ck) = (summary rs ck \<noteq> Some (JInt 0))"
    by (cases "summary rs ck" rule: ne_zero.cases) simp_all
  show ?thesis
    unfolding nz by (cases "summary rs lk" rule: join_ids.cases) simp_all
qed

lemma stringify_sections:
  "stringify_response_summary rs =
     (case seq_sections (map (id_section rs) categories) of
        Inl e \<Rightarrow> Inl e
      | Inr t \<Rightarrow> Inr (high_level_summary rs @ t))"
proof -
  define a where "a = id_section rs (''nbCreated'', ''created'',
    '' new sources have been activated'', ''The following sources have been activated: '')"
  define b where "b = id_section rs (''nbUpdated'', ''updated'',
    '' existing sources have been updated'', ''The following sources have been updated: '')"
  define c where "c = id_section rs (''nbFailed'', ''failed'',
    '' sources have failed'', ''The following sources have failed: '')"
  define d where "d = id_section rs (''nbDeactivated'', ''deactivated'',
    '' existing sources have been deactivated'', ''The following sources have been deactivated: '')"
  have A: "(if ne_zero (summary rs ''nbCreated'')
            then (case join_ids (summary rs ''created'') of
                    Inl e \<Rightarrow> Inl e
                  | Inr ids \<Rightarrow>
                      Inr (acc @ ''The following sources have been activated: '' @ ids @ [NL]))
            else Inr acc) = (case a of Inl e \<Rightarrow> Inl e | Inr t \<Rightarrow> Inr (acc @ t))" for acc
    unfolding a_def by (rule ids_block)
  have B: "(if ne_zero (summary rs ''nbUpdated'')
            then (case join_ids (summary rs ''updated'') of
                    Inl e \<Rightarrow> Inl e
                  | Inr ids \<Rightarrow>
                      Inr (acc @ ''The following sources have been updated: '' @ ids @ [NL]))
            else Inr acc) = (case b of Inl e \<Rightarrow> Inl e | Inr t \<Rightarrow> Inr (acc @ t))" for acc
    unfolding b_def by (rule ids_block)
  have C: "(if ne_zero (summary rs ''nbFailed'')
            then (case join_ids (summary rs ''failed'') of
                    Inl e \<Rightarrow> Inl e
                  | Inr ids \<Rightarrow>
                      Inr (acc @ ''The following sources have failed: '' @ ids @ [NL]))
            else Inr acc) = (case c of Inl e \<Rightarrow> Inl e | Inr t \<Rightarrow> Inr (acc @ t))" for acc
    unfolding c_def by (rule ids_block)
  have D: "(if ne_zero (summary rs ''nbDeactivated'')
            then (case join_ids (summary rs ''deactivated'') of
                    Inl e \<Rightarrow> Inl e
                  | Inr ids \<Rightarrow>
                      Inr (acc @ ''The following sources have been deactivated: '' @ ids @ [NL]))
            else Inr acc) = (case d of Inl e \<Rightarrow> Inl e | Inr t \<Rightarrow> Inr (acc @ t))" for acc
    unfolding d_def by (rule ids_block)
  have lhs: "stringify_response_summary rs =
     (case (case a of Inl e \<Rightarrow> Inl e | Inr t \<Rightarrow> Inr (high_level_summary rs @ t)) of
        Inl e \<Rightarrow> Inl e
      | Inr s1 \<Rightarrow>
      case (case b of Inl e \<Rightarrow> Inl e | Inr t \<Rightarrow> Inr (s1 @ t)) of
        Inl e \<Rightarrow> Inl e
      | Inr s2 \<Rightarrow>
      case (case c of Inl e \<Rightarrow> Inl e | Inr t \<Rightarrow> Inr (s2 @ t)) of
        Inl e \<Rightarrow> Inl e
      | Inr s3 \<Rightarrow> (case d of Inl e \<Rightarrow> Inl e | Inr t \<Rightarrow> Inr (s3 @ t)))"
    unfolding stringify_response_summary_def Let_def append_Nil A B C D ..
  have rhs: "seq_sections (map (id_section rs) categories) = seq_sections [a, b, c, d]"
    by (simp only: categories_def list.map a_def b_def c_def d_def)
  show ?thesis unfolding lhs rhs
    by (cases a; cases b; cases c; cases d) simp_all
qed


lemma is_int_conv: "is_int v = (\<exists>i. v = Some (JInt i))"
  by (cases v rule: is_int.cases) simp_all

lemma is_list_conv: "is_list v = (\<exists>xs. v = Some (JList xs))"
  by (cases v rule: is_list.cases) simp_all

lemma stringify_expected_shape_report:
  assumes "expected_shape rs"
  shows "stringify_response_summary rs = Inr (report rs)"
proof -
  from assms obtain i1 i2 i3 i4 l1 l2 l3 l4 where
    c: "summary rs ''nbCreated'' = Some (JInt i1)" "summary rs ''nbUpdated'' = Some (JInt i2)"
       "summary rs ''nbFailed'' = Some (JInt i3)" "summary rs ''nbDeactivated'' = Some (JInt i4)"
    and l: "summary rs ''created'' = Some (JList l1)" "summary rs ''updated'' = Some (JList l2)"
       "summary rs ''failed'' = Some (JList l3)" "summary rs ''deactivated'' = Some (JList l4)"
    unfolding expected_shape_def is_int_conv is_list_conv by auto
  have secs: "seq_sections (map (id_section rs) categories) =
              Inr (concat (map (id_line rs) (filter (nonzero_count rs) categories)))"
    by (simp add: categories_def c l)
  have high: "high_level_summary rs =
     submission_time rs @ [NL, NL] @
     ''Actions performed as a result of the request:'' @ [NL] @
     concat (map (int_count_line rs) categories) @ [NL]"
    by (simp add: high_level_summary_def categories_def c)
  show ?thesis
    by (simp only: stringify_sections secs sum.case high report_def append_assoc)
qed

text \<open>
  Claim C5: for a summary of the expected shape, \<^verbatim>\<open>stringify\<close> writes the submission
  time, the four count lines in the order created, updated, failed, deactivated, and then,
  for each category whose count is not zero and in the same order, the line of its source
  ids joined by a comma and a space. With \<^verbatim>\<open>nbCreated = 2\<close>, the created ids 676 and
  680 and every other count 0, the report ends with the line
  \<^verbatim>\<open>The following sources have been activated: 676, 680\<close> and has no line of ids for
  another category.
\<close>

theorem stringify_expected_shape:
  "(expected_shape rs \<longrightarrow> stringify_response_summary rs = Inr (report rs)) \<and>
   stringify_response_summary
     \<lparr>submission_time = ''Wed, 18 Nov 2020 10:06:41 GMT'',
      summary = [''nbCreated'' \<mapsto> JInt 2, ''nbUpdated'' \<mapsto> JInt 0, ''nbFailed'' \<mapsto> JInt 0,
                 ''nbDeactivated'' \<mapsto> JInt 0, ''created'' \<mapsto> JList [''676'', ''680''],
                 ''updated'' \<mapsto> JList [], ''failed'' \<mapsto> JList [],
                 ''deactivated'' \<mapsto> JList []]\<rparr> =
     Inr (''Wed, 18 Nov 2020 10:06:41 GMT'' @ [NL, NL] @
          ''Actions performed as a result of the request:'' @ [NL] @
          ''  - 2 new sources have been activated'' @ [NL] @
          ''  - 0 existing sources have been updated'' @ [NL] @
          ''  - 0 sources have failed'' @ [NL] @
          ''  - 0 existing sources have been deactivated'' @ [NL, NL] @
          ''The following sources have been activated: 676, 680'' @ [NL])"
proof (intro conjI impI)
  assume "expected_shape rs"
  then show "stringify_response_summary rs = Inr (report rs)"
    by (rule stringify_expected_shape_report)
next
  show "stringify_response_summary
     \<lparr>submission_time = ''Wed, 18 Nov 2020 10:06:41 GMT'',
      summary = [''nbCreated'' \<mapsto> JInt 2, ''nbUpdated'' \<mapsto> JInt 0, ''nbFailed'' \<mapsto> JInt 0,
                 ''nbDeactivated'' \<mapsto> JInt 0, ''created'' \<mapsto> JList [''676'', ''680''],
                 ''updated'' \<mapsto> JList [], ''failed'' \<mapsto> JList [],
                 ''deactivated'' \<mapsto> JList []]\<rparr> =
     Inr (''Wed, 18 Nov 2020 10:06:41 GMT'' @ [NL, NL] @
          ''Actions performed as a result of the request:'' @ [NL] @
          ''  - 2 new sources have been activated'' @ [NL] @
          ''  - 0 existing sources have been updated'' @ [NL] @
          ''  - 0 sources have failed'' @ [NL] @
          ''  - 0 existing sources have been deactivated'' @ [NL, NL] @
          ''The following sources have been activated: 676, 680'' @ [NL])"
    by (simp add: stringify_response_summary_def high_level_summary_def str_int_def
        digit_char_def)
qed

theorem stringify_expected_shape_witness:
  "expected_shape
     \<lparr>submission_time = ''Wed, 18 Nov 2020 10:06:41 GMT'',
      summary = [''nbCreated'' \<mapsto> JInt 0, ''nbUpdated'' \<mapsto> JInt 6, ''nbFailed'' \<mapsto> JInt 0,
                 ''nbDeactivated'' \<mapsto> JInt 0, ''created'' \<mapsto> JList [],
                 ''updated'' \<mapsto> JList [''207'', ''673''], ''failed'' \<mapsto> JList [],
                 ''deactivated'' \<mapsto> JList []]\<rparr> \<and>
   stringify_response_summary
     \<lparr>submission_time = ''Wed, 18 Nov 2020 10:06:41 GMT'',
      summary = [''nbCreated'' \<mapsto> JInt 0, ''nbUpdated'' \<mapsto> JInt 6, ''nbFailed'' \<mapsto> JInt 0,
                 ''nbDeactivated'' \<mapsto> JInt 0, ''created'' \<mapsto> JList [],
                 ''updated'' \<mapsto> JList [''207'', ''673''], ''failed'' \<mapsto> JList [],
                 ''deactivated'' \<mapsto> JList []]\<rparr> =
     Inr (''Wed, 18 Nov 2020 10:06:41 GMT'' @ [NL, NL] @
          ''Actions performed as a result of the request:'' @ [NL] @
          ''  - 0 new sources have been activated'' @ [NL] @
          ''  - 6 existing sources have been updated'' @ [NL] @
          ''  - 0 sources have failed'' @ [NL] @
          ''  - 0 existing sources have been deactivated'' @ [NL, NL] @
          ''The following sources have been updated: 207, 673'' @ [NL])"
proof -
  let ?rs = "\<lparr>submission_time = ''Wed, 18 Nov 2020 10:06:41 GMT'',
      summary = [''nbCreated'' \<mapsto> JInt 0, ''nbUpdated'' \<mapsto> JInt 6, ''nbFailed'' \<mapsto> JInt 0,
                 ''nbDeactivated'' \<mapsto> JInt 0, ''created'' \<mapsto> JList [],
                 ''updated'' \<mapsto> JList [''207'', ''673''], ''failed'' \<mapsto> JList [],
                 ''deactivated'' \<mapsto> JList []]\<rparr>"
  have shape: "expected_shape ?rs" by (simp add: expected_shape_def)
  have "report ?rs = ''Wed, 18 Nov 2020 10:06:41 GMT'' @ [NL, NL] @
          ''Actions performed as a result of the request:'' @ [NL] @
          ''  - 0 new sources have been activated'' @ [NL] @
          ''  - 6 existing sources have been updated'' @ [NL] @
          ''  - 0 sources have failed'' @ [NL] @
          ''  - 0 existing sources have been deactivated'' @ [NL, NL] @
          ''The following sources have been updated: 207, 673'' @ [NL]"
    by (simp add: report_def categories_def str_int_def digit_char_def)
  with shape stringify_expected_shape[of ?rs] show ?thesis by simp
qed

text \<open>
  Claim C9: the line of ids of a category is left out only when the lookup of its count in
  the summary is the integer 0. When the count key \<^verbatim>\<open>nbCreated\<close> is absent the lookup
  is \<^verbatim>\<open>None\<close>: the count line reads \<^verbatim>\<open>None\<close>, and the line of the created ids is
  attempted, which writes the line when \<^verbatim>\<open>created\<close> is a list and raises a TypeError
  otherwise. The same holds of every category.
\<close>

theorem stringify_absent_count:
  "(summary rs ''nbCreated'' \<noteq> Some (JInt 0) \<longrightarrow>
      stringify_response_summary rs =
        (case summary rs ''created'' of
           Some (JList ids) \<Rightarrow>
             (case seq_sections (map (id_section rs) (tl categories)) of
                Inl e \<Rightarrow> Inl e
              | Inr t \<Rightarrow>
                  Inr (high_level_summary rs @ ''The following sources have been activated: '' @
                       str_join '', '' ids @ [NL] @ t))
         | Some (JInt i) \<Rightarrow> Inl TypeError
         | None \<Rightarrow> Inl TypeError)) \<and>
   (summary rs ''nbCreated'' = Some (JInt 0) \<longrightarrow>
      stringify_response_summary rs =
        (case seq_sections (map (id_section rs) (tl categories)) of
           Inl e \<Rightarrow> Inl e
         | Inr t \<Rightarrow> Inr (high_level_summary rs @ t))) \<and>
   (summary rs ''nbCreated'' = None \<longrightarrow>
      (\<exists>rest. high_level_summary rs =
         submission_time rs @ [NL, NL] @ ''Actions performed as a result of the request:'' @ [NL] @
         ''  - None new sources have been activated'' @ [NL] @ rest)) \<and>
   stringify_response_summary rs =
     (case seq_sections (map (id_section rs) categories) of
        Inl e \<Rightarrow> Inl e
      | Inr t \<Rightarrow> Inr (high_level_summary rs @ t)) \<and>
   (id_section rs (ck, lk, cl, il) = Inr []) = (summary rs ck = Some (JInt 0)) \<and>
   (summary rs ck = None \<longrightarrow> count_line rs (ck, lk, cl, il) = ''  - None'' @ cl @ [NL])"
proof -
  have cats: "categories = (''nbCreated'', ''created'', '' new sources have been activated'',
       ''The following sources have been activated: '') # tl categories"
    by (simp add: categories_def)
  have split: "stringify_response_summary rs =
     (case seq_sections (id_section rs (''nbCreated'', ''created'',
              '' new sources have been activated'',
              ''The following sources have been activated: '') #
            map (id_section rs) (tl categories)) of
        Inl e \<Rightarrow> Inl e
      | Inr t \<Rightarrow> Inr (high_level_summary rs @ t))"
    by (subst stringify_sections, subst cats) simp
  have nonzero: "stringify_response_summary rs =
        (case summary rs ''created'' of
           Some (JList ids) \<Rightarrow>
             (case seq_sections (map (id_section rs) (tl categories)) of
                Inl e \<Rightarrow> Inl e
              | Inr t \<Rightarrow>
                  Inr (high_level_summary rs @ ''The following sources have been activated: '' @
                       str_join '', '' ids @ [NL] @ t))
         | Some (JInt i) \<Rightarrow> Inl TypeError
         | None \<Rightarrow> Inl TypeError)"
    if "summary rs ''nbCreated'' \<noteq> Some (JInt 0)"
    unfolding split using that
    by (cases "summary rs ''created''" rule: join_ids.cases)
       (simp_all split: sum.splits)
  have zero: "stringify_response_summary rs =
        (case seq_sections (map (id_section rs) (tl categories)) of
           Inl e \<Rightarrow> Inl e
         | Inr t \<Rightarrow> Inr (high_level_summary rs @ t))"
    if "summary rs ''nbCreated'' = Some (JInt 0)"
    unfolding split using that by (simp split: sum.splits)
  have absent: "\<exists>rest. high_level_summary rs =
         submission_time rs @ [NL, NL] @ ''Actions performed as a result of the request:'' @ [NL] @
         ''  - None new sources have been activated'' @ [NL] @ rest"
    if "summary rs ''nbCreated'' = None"
    using that by (simp add: high_level_summary_def)
  have suppressed: "(id_section rs (ck, lk, cl, il) = Inr []) = (summary rs ck = Some (JInt 0))"
    by (cases "summary rs lk" rule: join_ids.cases) simp_all
  have line: "count_line rs (ck, lk, cl, il) = ''  - None'' @ cl @ [NL]" if "summary rs ck = None"
    using that by simp
  from nonzero zero absent suppressed line stringify_sections[of rs] show ?thesis
    by blast
qed


theorem stringify_absent_count_witness:
  "summary \<lparr>submission_time = ''T'',
            summary = [''nbUpdated'' \<mapsto> JInt 0, ''nbFailed'' \<mapsto> JInt 0, ''nbDeactivated'' \<mapsto> JInt 0,
                       ''created'' \<mapsto> JList [''676'', ''680'']]\<rparr> ''nbCreated'' = None \<and>
   stringify_response_summary
     \<lparr>submission_time = ''T'',
      summary = [''nbUpdated'' \<mapsto> JInt 0, ''nbFailed'' \<mapsto> JInt 0, ''nbDeactivated'' \<mapsto> JInt 0,
                 ''created'' \<mapsto> JList [''676'', ''680'']]\<rparr> =
     Inr (''T'' @ [NL, NL] @
          ''Actions performed as a result of the request:'' @ [NL] @
          ''  - None new sources have been activated'' @ [NL] @
          ''  - 0 existing sources have been updated'' @ [NL] @
          ''  - 0 sources have failed'' @ [NL] @
          ''  - 0 existing sources have been deactivated'' @ [NL, NL] @
          ''The following sources have been activated: 676, 680'' @ [NL]) \<and>
   stringify_response_summary \<lparr>submission_time = ''T'', summary = Map.empty\<rparr> = Inl TypeError \<and>
   summary \<lparr>submission_time = ''T'',
            summary = [''nbCreated'' \<mapsto> JInt 0, ''nbUpdated'' \<mapsto> JInt 0, ''nbFailed'' \<mapsto> JInt 0,
                       ''nbDeactivated'' \<mapsto> JInt 0, ''created'' \<mapsto> JList [''676'']]\<rparr>
      ''nbCreated'' = Some (JInt 0) \<and>
   stringify_response_summary
     \<lparr>submission_time = ''T'',
      summary = [''nbCreated'' \<mapsto> JInt 0, ''nbUpdated'' \<mapsto> JInt 0, ''nbFailed'' \<mapsto> JInt 0,
                 ''nbDeactivated'' \<mapsto> JInt 0, ''created'' \<mapsto> JList [''676'']]\<rparr> =
     Inr (''T'' @ [NL, NL] @
          ''Actions performed as a result of the request:'' @ [NL] @
          ''  - 0 new sources have been activated'' @ [NL] @
          ''  - 0 existing sources have been updated'' @ [NL] @
          ''  - 0 sources have failed'' @ [NL] @
          ''  - 0 existing sources have been deactivated'' @ [NL, NL])"
proof -
  let ?absent = "\<lparr>submission_time = ''T'',
      summary = [''nbUpdated'' \<mapsto> JInt 0, ''nbFailed'' \<mapsto> JInt 0, ''nbDeactivated'' \<mapsto> JInt 0,
                 ''created'' \<mapsto> JList [''676'', ''680'']]\<rparr>"
  let ?empty = "\<lparr>submission_time = ''T'', summary = Map.empty\<rparr>"
  let ?zero = "\<lparr>submission_time = ''T'',
      summary = [''nbCreated'' \<mapsto> JInt 0, ''nbUpdated'' \<mapsto> JInt 0, ''nbFailed'' \<mapsto> JInt 0,
                 ''nbDeactivated'' \<mapsto> JInt 0, ''created'' \<mapsto> JList [''676'']]\<rparr>"
  have a0: "summary ?absent ''nbCreated'' = None" by simp
  then have a1: "summary ?absent ''nbCreated'' \<noteq> Some (JInt 0)" by simp
  have e1: "summary ?empty ''nbCreated'' \<noteq> Some (JInt 0)" by simp
  have z0: "summary ?zero ''nbCreated'' = Some (JInt 0)" by simp
  from stringify_absent_count[of ?absent] a1
  have "stringify_response_summary ?absent =
        (case summary ?absent ''created'' of
           Some (JList ids) \<Rightarrow>
             (case seq_sections (map (id_section ?absent) (tl categories)) of
                Inl e \<Rightarrow> Inl e
              | Inr t \<Rightarrow>
                  Inr (high_level_summary ?absent @ ''The following sources have been activated: '' @
                       str_join '', '' ids @ [NL] @ t))
         | Some (JInt i) \<Rightarrow> Inl TypeError
         | None \<Rightarrow> Inl TypeError)"
    by blast
  then have r1: "stringify_response_summary ?absent =
     Inr (''T'' @ [NL, NL] @
          ''Actions performed as a result of the request:'' @ [NL] @
          ''  - None new sources have been activated'' @ [NL] @
          ''  - 0 existing sources have been updated'' @ [NL] @
          ''  - 0 sources have failed'' @ [NL] @
          ''  - 0 existing sources have been deactivated'' @ [NL, NL] @
          ''The following sources have been activated: 676, 680'' @ [NL])"
    by (simp add: categories_def high_level_summary_def str_int_def digit_char_def)
  from stringify_absent_count[of ?empty] e1
  have "stringify_response_summary ?empty =
        (case summary ?empty ''created'' of
           Some (JList ids) \<Rightarrow>
             (case seq_sections (map (id_section ?empty) (tl categories)) of
                Inl e \<Rightarrow> Inl e
              | Inr t \<Rightarrow>
                  Inr (high_level_summary ?empty @ ''The following sources have been activated: '' @
                       str_join '', '' ids @ [NL] @ t))
         | Some (JInt i) \<Rightarrow> Inl TypeError
         | None \<Rightarrow> Inl TypeError)"
    by blast
  then have r2: "stringify_response_summary ?empty = Inl TypeError" by simp
  from stringify_absent_count[of ?zero] z0
  have "stringify_response_summary ?zero =
        (case seq_sections (map (id_section ?zero) (tl categories)) of
           Inl e \<Rightarrow> Inl e
         | Inr t \<Rightarrow> Inr (high_level_summary ?zero @ t))"
    by blast
  then have r3: "stringify_response_summary ?zero =
     Inr (''T'' @ [NL, NL] @
          ''Actions performed as a result of the request:'' @ [NL] @
          ''  - 0 new sources have been activated'' @ [NL] @
          ''  - 0 existing sources have been updated'' @ [NL] @
          ''  - 0 sources have failed'' @ [NL] @
          ''  - 0 existing sources have been deactivated'' @ [NL, NL])"
    by (simp add: categories_def high_level_summary_def str_int_def digit_char_def)
  from a0 r1 r2 z0 r3 show ?thesis by blast
qed

section \<open>Properties of the inferred timestamp\<close>

lemma split_acc_takeWhile:
  "split_acc c acc s =
     (rev acc @ takeWhile (\<lambda>x. x \<noteq> c) s) #
     (case dropWhile (\<lambda>x. x \<noteq> c) s of [] \<Rightarrow> [] | x # rest \<Rightarrow> split_acc c [] rest)"
  by (induction s arbitrary: acc) simp_all

lemma list_get_str_split:
  "list_get (str_split CHR ''='' query) (Suc 0) =
     (case value_segment query of None \<Rightarrow> Inl IndexError | Some v \<Rightarrow> Inr v)"
proof -
  have s: "str_split CHR ''='' query =
     takeWhile (\<lambda>c. c \<noteq> CHR ''='') query #
     (case dropWhile (\<lambda>c. c \<noteq> CHR ''='') query of
        [] \<Rightarrow> []
      | x # rest \<Rightarrow> split_acc CHR ''='' [] rest)"
    using split_acc_takeWhile[of "CHR ''=''" "[]" query] by (simp add: str_split_def)
  show ?thesis
  proof (cases "dropWhile (\<lambda>c. c \<noteq> CHR ''='') query")
    case Nil
    show ?thesis
      by (simp only: s Nil value_segment_def list.case option.case list_get_def) simp
  next
    case (Cons x rest)
    have "split_acc CHR ''='' [] rest =
          takeWhile (\<lambda>c. c \<noteq> CHR ''='') rest #
          (case dropWhile (\<lambda>c. c \<noteq> CHR ''='') rest of
             [] \<Rightarrow> []
           | x # rest' \<Rightarrow> split_acc CHR ''='' [] rest')"
      using split_acc_takeWhile[of "CHR ''=''" "[]" rest] by simp
    then show ?thesis
      by (simp only: s Cons value_segment_def list.case option.case list_get_def) simp
  qed
qed

lemma convert_date_header_example:
  "convert_raw_utc_timestamp_to_string ''Fri, 20 Nov 2020 11:47:40 GMT'' ''%Y%m%dT%H%M%SZ'' =
   Inr ''20201120T114740Z''"
  by code_simp

lemma convert_query_example:
  "convert_raw_utc_timestamp_to_string ''2020-11-18T12:30:52Z'' ''%Y%m%dT%H%M%SZ'' =
   Inr ''20201118T123052Z''"
  by code_simp

text \<open>
  Claim C1: when the query of the request URL is empty, \<^verbatim>\<open>infer_timestamp\<close> is the
  \<^verbatim>\<open>Date\<close> header converted with the pattern \<^verbatim>\<open>%Y%m%dT%H%M%SZ\<close> (a KeyError when
  the header is absent); when the query is not empty, it is the first value segment of the
  query converted with the same pattern (an IndexError when the query has no \<^verbatim>\<open>=\<close>),
  and the headers are not read. The header \<^verbatim>\<open>Fri, 20 Nov 2020 11:47:40 GMT\<close> gives
  \<^verbatim>\<open>20201120T114740Z\<close>, and the query \<^verbatim>\<open>dateTime=2020-11-18T12:30:52Z\<close> gives
  \<^verbatim>\<open>20201118T123052Z\<close> whatever the headers.
\<close>

theorem infer_timestamp_by_query:
  "(urlparse_query (request_url r) = [] \<longrightarrow>
      infer_timestamp_from_retrieved_response r =
        (case headers r ''Date'' of
           None \<Rightarrow> Inl (KeyError ''Date'')
         | Some date \<Rightarrow> convert_raw_utc_timestamp_to_string date ''%Y%m%dT%H%M%SZ'')) \<and>
   (urlparse_query (request_url r) \<noteq> [] \<longrightarrow>
      infer_timestamp_from_retrieved_response r =
        (case value_segment (urlparse_query (request_url r)) of
           None \<Rightarrow> Inl IndexError
         | Some v \<Rightarrow> convert_raw_utc_timestamp_to_string v ''%Y%m%dT%H%M%SZ'') \<and>
      infer_timestamp_from_retrieved_response (r\<lparr>headers := hs\<rparr>) =
        infer_timestamp_from_retrieved_response r) \<and>
   infer_timestamp_from_retrieved_response
     \<lparr>request_url =
        ''https://watchlistapi.icedatavault.icedataservices.com/v1/configurations/watchlists'',
      headers = hs(''Date'' \<mapsto> ''Fri, 20 Nov 2020 11:47:40 GMT''), content = body\<rparr> =
     Inr ''20201120T114740Z'' \<and>
   infer_timestamp_from_retrieved_response
     \<lparr>request_url =
        ''https://watchlistapi.icedatavault.icedataservices.com/v1/configurations/watchlists?dateTime=2020-11-18T12:30:52Z'',
      headers = hs, content = body\<rparr> =
     Inr ''20201118T123052Z''"
proof (intro conjI impI)
  assume "urlparse_query (request_url r) = []"
  then show "infer_timestamp_from_retrieved_response r =
        (case headers r ''Date'' of
           None \<Rightarrow> Inl (KeyError ''Date'')
         | Some date \<Rightarrow> convert_raw_utc_timestamp_to_string date ''%Y%m%dT%H%M%SZ'')"
    by (simp add: infer_timestamp_from_retrieved_response_def)
next
  assume q: "urlparse_query (request_url r) \<noteq> []"
  have by_segment: "infer_timestamp_from_retrieved_response r' =
        (case value_segment (urlparse_query (request_url r')) of
           None \<Rightarrow> Inl IndexError
         | Some v \<Rightarrow> convert_raw_utc_timestamp_to_string v ''%Y%m%dT%H%M%SZ'')"
    if "urlparse_query (request_url r') \<noteq> []" for r'
    using that
    by (simp add: infer_timestamp_from_retrieved_response_def list_get_str_split
        split: option.splits)
  from q show "infer_timestamp_from_retrieved_response r =
        (case value_segment (urlparse_query (request_url r)) of
           None \<Rightarrow> Inl IndexError
         | Some v \<Rightarrow> convert_raw_utc_timestamp_to_string v ''%Y%m%dT%H%M%SZ'')"
    by (rule by_segment)
  from q show "infer_timestamp_from_retrieved_response (r\<lparr>headers := hs\<rparr>) =
        infer_timestamp_from_retrieved_response r"
    by (simp add: by_segment)
next
  show "infer_timestamp_from_retrieved_response
     \<lparr>request_url =
        ''https://watchlistapi.icedatavault.icedataservices.com/v1/configurations/watchlists'',
      headers = hs(''Date'' \<mapsto> ''Fri, 20 Nov 2020 11:47:40 GMT''), content = body\<rparr> =
     Inr ''20201120T114740Z''"
    by (simp add: infer_timestamp_from_retrieved_response_def urlparse_query_def
        convert_date_header_example)
next
  have "str_split CHR ''='' ''dateTime=2020-11-18T12:30:52Z'' =
        [''dateTime'', ''2020-11-18T12:30:52Z'']"
    by (simp add: str_split_def)
  then show "infer_timestamp_from_retrieved_response
     \<lparr>request_url =
        ''https://watchlistapi.icedatavault.icedataservices.com/v1/configurations/watchlists?dateTime=2020-11-18T12:30:52Z'',
      headers = hs, content = body\<rparr> =
     Inr ''20201118T123052Z''"
    by (simp add: infer_timestamp_from_retrieved_response_def urlparse_query_def list_get_def
        convert_query_example)
qed

theorem infer_timestamp_by_query_witness:
  "urlparse_query (request_url
     \<lparr>request_url = ''https://host/v1/watchlists'',
      headers = [''Date'' \<mapsto> ''Wed, 18 Nov 2020 10:06:41 GMT''], content = []\<rparr>) = [] \<and>
   infer_timestamp_from_retrieved_response
     \<lparr>request_url = ''https://host/v1/watchlists'',
      headers = [''Date'' \<mapsto> ''Wed, 18 Nov 2020 10:06:41 GMT''], content = []\<rparr> =
     Inr ''20201118T100641Z'' \<and>
   urlparse_query (request_url
     \<lparr>request_url = ''https://host/v1/watchlists?dateTime=2020-11-18T12:30:52Z'',
      headers = [''Date'' \<mapsto> ''Wed, 18 Nov 2020 10:06:41 GMT''], content = []\<rparr>) =
     ''dateTime=2020-11-18T12:30:52Z'' \<and>
   infer_timestamp_from_retrieved_response
     \<lparr>request_url = ''https://host/v1/watchlists?dateTime=2020-11-18T12:30:52Z'',
      headers = [''Date'' \<mapsto> ''Wed, 18 Nov 2020 10:06:41 GMT''], content = []\<rparr> =
     Inr ''20201118T123052Z'' \<and>
   infer_timestamp_from_retrieved_response
     \<lparr>request_url = ''https://host/v1/watchlists?now'',
      headers = [''Date'' \<mapsto> ''Wed, 18 Nov 2020 10:06:41 GMT''], content = []\<rparr> =
     Inl IndexError"
proof -
  let ?hs = "[''Date'' \<mapsto> ''Wed, 18 Nov 2020 10:06:41 GMT'']"
  let ?a = "\<lparr>request_url = ''https://host/v1/watchlists'', headers = ?hs, content = []\<rparr>"
  let ?b = "\<lparr>request_url = ''https://host/v1/watchlists?dateTime=2020-11-18T12:30:52Z'',
             headers = ?hs, content = []\<rparr>"
  let ?c = "\<lparr>request_url = ''https://host/v1/watchlists?now'', headers = ?hs, content = []\<rparr>"
  have conv: "convert_raw_utc_timestamp_to_string ''Wed, 18 Nov 2020 10:06:41 GMT''
                ''%Y%m%dT%H%M%SZ'' = Inr ''20201118T100641Z''"
    by code_simp
  have qa: "urlparse_query (request_url ?a) = []" by (simp add: urlparse_query_def)
  have qb: "urlparse_query (request_url ?b) = ''dateTime=2020-11-18T12:30:52Z''"
    by (simp add: urlparse_query_def)
  have qc: "urlparse_query (request_url ?c) = ''now''" by (simp add: urlparse_query_def)
  from infer_timestamp_by_query[of ?a] qa
  have ra: "infer_timestamp_from_retrieved_response ?a = Inr ''20201118T100641Z''"
    by (simp add: conv)
  from infer_timestamp_by_query[of ?b] qb
  have rb: "infer_timestamp_from_retrieved_response ?b = Inr ''20201118T123052Z''"
    by (simp add: value_segment_def convert_query_example)
  from infer_timestamp_by_query[of ?c] qc
  have rc: "infer_timestamp_from_retrieved_response ?c = Inl IndexError"
    by (simp add: value_segment_def)
  from qa ra qb rb rc show ?thesis by blast
qed

section \<open>Properties of the conversion of timestamps\<close>






























end
